theory Spec2Isabelle
  imports Main
begin

section \<open>The GDS client sample script\<close>

text \<open>
  A shallow embedding of \<^verbatim>\<open>fprime_gds_client_sample_script.py\<close>: the channel handler
  \<^verbatim>\<open>SpecificChannel\<close>, the argument extension \<^verbatim>\<open>ChannelNameParser\<close> and the driver
  \<^verbatim>\<open>main\<close>. The GDS framework (argument parsing, the pipeline, its dictionaries and
  coders) and the Python runtime (\<^verbatim>\<open>time.sleep\<close>, \<^verbatim>\<open>str\<close> of an exception) are not
  part of the script; the driver takes their behaviour as a parameter.
\<close>

subsection \<open>Exceptions\<close>

text \<open>
  The exceptions the script can meet. \<^verbatim>\<open>KeyboardInterrupt\<close> and \<^verbatim>\<open>SystemExit\<close> derive
  from \<^verbatim>\<open>BaseException\<close> only; the others are subclasses of \<^verbatim>\<open>Exception\<close>
  (\<^verbatim>\<open>UnboundLocalError\<close> through \<^verbatim>\<open>NameError\<close>, \<^verbatim>\<open>KeyError\<close> through
  \<^verbatim>\<open>LookupError\<close>). \<open>KeyError k\<close> carries the key that was looked up, \<open>NameError n\<close>
  and \<open>UnboundLocalError n\<close> the name that was read, \<open>OtherException m\<close> stands for
  any further subclass of \<^verbatim>\<open>Exception\<close>, with its text.
\<close>

datatype exc =
    KeyboardInterrupt
  | SystemExit
  | KeyError string
  | NameError string
  | UnboundLocalError string
  | TypeError string
  | OtherException string

fun isinstance_KeyError :: "exc \<Rightarrow> bool" where
  "isinstance_KeyError (KeyError k) = True"
| "isinstance_KeyError e = False"

fun isinstance_Exception :: "exc \<Rightarrow> bool" where
  "isinstance_Exception KeyboardInterrupt = False"
| "isinstance_Exception SystemExit = False"
| "isinstance_Exception e = True"

subsection \<open>Dictionaries\<close>

text \<open>
  A Python \<^verbatim>\<open>dict\<close> keeps its keys in insertion order, and the driver prints the keys
  of the channel dictionary in that order, so a dictionary is an association list.
  \<open>dict_set\<close> is \<^verbatim>\<open>d[k] = v\<close>: an existing key keeps its place and gets the new value,
  a new key goes to the end. \<open>dict_getitem\<close> is \<^verbatim>\<open>d[k]\<close>, which raises
  \<^verbatim>\<open>KeyError(k)\<close> on a missing key. \<open>dict_comp f ks\<close> is the comprehension
  \<^verbatim>\<open>{key: f(key) for key in ks}\<close>. A Python dictionary has each key once; no
  theorem below needs that of the association list, where the first entry of a key
  is the one that is read.
\<close>

type_synonym 'v dict = "(string \<times> 'v) list"

definition dict_keys :: "'v dict \<Rightarrow> string list" where
  "dict_keys d = map fst d"

definition dict_get :: "'v dict \<Rightarrow> string \<Rightarrow> 'v option" where
  "dict_get d k = map_of d k"

definition dict_getitem :: "'v dict \<Rightarrow> string \<Rightarrow> exc + 'v" where
  "dict_getitem d k = (case map_of d k of None \<Rightarrow> Inl (KeyError k) | Some v \<Rightarrow> Inr v)"

fun dict_set :: "'v dict \<Rightarrow> string \<Rightarrow> 'v \<Rightarrow> 'v dict" where
  "dict_set [] k v = [(k, v)]"
| "dict_set (p # ps) k v = (if fst p = k then (k, v) # ps else p # dict_set ps k v)"

definition dict_comp :: "(string \<Rightarrow> 'v) \<Rightarrow> string list \<Rightarrow> 'v dict" where
  "dict_comp f ks = foldl (\<lambda>d key. dict_set d key (f key)) [] ks"

subsection \<open>Channel descriptors, samples and the handler\<close>

text \<open>
  A channel descriptor (\<^verbatim>\<open>ChannelTemplate\<close>) has at least an identifier, read as
  \<^verbatim>\<open>.id\<close>; a sample has at least the channel's name, read as \<^verbatim>\<open>data.name\<close>, with a
  value and a time. Both records are extensible. The handler object has the two
  attributes that \<^verbatim>\<open>__init__\<close> sets: \<^verbatim>\<open>last_value\<close>, a dictionary from channel name to
  the last sample (\<open>None\<close> is Python's \<^verbatim>\<open>None\<close>: no sample yet), and \<^verbatim>\<open>id\<close>.
\<close>

record ChannelTemplate =
  template_id :: int

record sample =
  name :: string
  val :: int
  time :: int

record SpecificChannel =
  last_value :: "sample option dict"
  id' :: int

text \<open>
  \<^verbatim>\<open>SpecificChannel.__init__(self, channels_by_name, name)\<close>: the comprehension over the
  keys runs first, then \<^verbatim>\<open>channels_by_name[name].id\<close>, whose \<^verbatim>\<open>KeyError\<close> leaves the
  constructor.
\<close>

definition SpecificChannel_init :: "ChannelTemplate dict \<Rightarrow> string \<Rightarrow> exc + SpecificChannel" where
  "SpecificChannel_init channels_by_name nm =
     (let lv = dict_comp (\<lambda>key. None) (dict_keys channels_by_name)
      in case dict_getitem channels_by_name nm of
           Inl e \<Rightarrow> Inl e
         | Inr t \<Rightarrow> Inr \<lparr>last_value = lv, id' = template_id t\<rparr>)"

text \<open>
  \<^verbatim>\<open>data_callback(self, data, sender=None)\<close>: the one statement
  \<^verbatim>\<open>self.last_value[data.name] = data\<close>. The handler is returned updated.
\<close>

definition data_callback :: "SpecificChannel \<Rightarrow> sample \<Rightarrow> 's option \<Rightarrow> SpecificChannel" where
  "data_callback self data sender =
     self\<lparr>last_value := dict_set (last_value self) (name data) (Some data)\<rparr>"

text \<open>
  \<^verbatim>\<open>dump_data\<close> (lines 67 to 69) is not a complete function: it is declared with no
  parameter at all, its \<^verbatim>\<open>for\<close> header has no colon and no body. What can be read
  from it: a call that passes any argument, as every call through an instance does
  (the instance is the first argument), fails with \<^verbatim>\<open>TypeError\<close>; a call with no
  argument first reads the name \<^verbatim>\<open>self\<close>, which is no parameter, so it is looked up
  among the module's global names. Those are the names the module binds at top level
  (its imports, classes and \<^verbatim>\<open>main\<close>); the builtins, which are searched after them,
  have neither \<^verbatim>\<open>self\<close> nor \<^verbatim>\<open>chanbel_handler\<close>. A name found nowhere raises
  \<^verbatim>\<open>NameError\<close>.
\<close>

definition module_globals :: "string list" where
  "module_globals =
     [''sys'', ''time'', ''Any'', ''Dict'', ''Tuple'', ''ParserBase'', ''StandardPipelineParser'',
      ''DataHandler'', ''SpecificChannel'', ''ChannelNameParser'', ''main'']"

definition load_global :: "string \<Rightarrow> exc + unit" where
  "load_global n = (if n \<in> set module_globals then Inr () else Inl (NameError n))"

definition dump_data :: "'a list \<Rightarrow> exc + unit" where
  "dump_data args =
     (if args \<noteq> [] then Inl (TypeError ''dump_data'')
      else case load_global ''self'' of Inl e \<Rightarrow> Inl e | Inr u \<Rightarrow> Inr ())"

subsection \<open>The argument extension\<close>

text \<open>
  \<^verbatim>\<open>ChannelNameParser.get_arguments\<close> returns a dictionary from a tuple of flags to the
  keyword arguments for \<^verbatim>\<open>argparse\<close>; \<^verbatim>\<open>handle_arguments\<close> returns \<^verbatim>\<open>args\<close>.
\<close>

datatype pyval = PyStr string | PyBool bool

definition get_arguments :: "'self \<Rightarrow> (string list \<times> pyval dict) list" where
  "get_arguments self =
     [([''--channel-name''],
       [(''dest'', PyStr ''channel_name''),
        (''help'', PyStr ''Name of channel to filter on''),
        (''required'', PyBool True)])]"

definition handle_arguments :: "'self \<Rightarrow> 'ns \<Rightarrow> 'kw \<Rightarrow> 'ns" where
  "handle_arguments self args kwargs = args"

subsection \<open>The driver\<close>

text \<open>
  What the driver gets from outside. \<open>namespace\<close> is the parsed argument namespace, of
  which the script reads \<^verbatim>\<open>channel_name\<close>; \<open>pipeline\<close> is the pipeline object, of which
  it reads \<^verbatim>\<open>dictionaries.channel_name\<close>. \<open>host\<close> gives the outcome of every call
  into the framework and the runtime: a call returns or raises. \<open>sleep h i\<close> is the
  outcome of the \<open>i\<close>-th call of \<^verbatim>\<open>time.sleep(60)\<close>; \<open>str h e\<close> is the text that
  formatting the exception \<open>e\<close> in an f-string gives.
\<close>

record namespace =
  channel_name :: string

record dictionaries =
  channel_name_dict :: "ChannelTemplate dict"

record pipeline =
  dictionaries :: dictionaries

record host =
  parse_args :: "exc + namespace"
  pipeline_factory :: "namespace \<Rightarrow> exc + pipeline"
  register_channel_consumer :: "pipeline \<Rightarrow> SpecificChannel \<Rightarrow> exc option"
  sleep :: "nat \<Rightarrow> exc option"
  disconnect :: "pipeline \<Rightarrow> exc option"
  str :: "exc \<Rightarrow> string"

text \<open>The calls and the output of a run, in order.\<close>

datatype stream = Stdout | Stderr

datatype event =
    Call_parse_args
  | Call_pipeline_factory namespace
  | Call_register_channel_consumer pipeline SpecificChannel
  | Call_sleep nat
  | Call_dump_data
  | Print stream string
  | Call_disconnect pipeline

text \<open>\<^verbatim>\<open>sep.join(xs)\<close>, and \<^verbatim>\<open>print(s, file=f)\<close>, which writes \<open>s\<close> and a newline.\<close>

fun join :: "string \<Rightarrow> string list \<Rightarrow> string" where
  "join sep [] = []"
| "join sep [x] = x"
| "join sep (x # y # ys) = x @ sep @ join sep (y # ys)"

definition newline :: string where
  "newline = [CHR 0x0A]"

definition tab :: string where
  "tab = [CHR 0x09]"

definition print :: "string \<Rightarrow> stream \<Rightarrow> event" where
  "print s file = Print file (s @ newline)"

text \<open>
  The loop \<^verbatim>\<open>while True: time.sleep(60); chanbel_handler.dump_data()\<close>. It has no
  \<^verbatim>\<open>break\<close>, so it ends only by an exception, which is its result together with the
  calls made. \<^verbatim>\<open>chanbel_handler\<close> is never assigned in \<^verbatim>\<open>main\<close>, so it is read as a
  global name. \<open>None\<close> is a loop that runs forever.
\<close>

partial_function (option) sleep_loop :: "host \<Rightarrow> nat \<Rightarrow> (event list \<times> exc) option" where
  "sleep_loop h i =
     (case sleep h i of
        Some e \<Rightarrow> Some ([Call_sleep 60], e)
      | None \<Rightarrow>
          (case load_global ''chanbel_handler'' of
             Inl e \<Rightarrow> Some ([Call_sleep 60], e)
           | Inr obj \<Rightarrow>
               (case dump_data [obj] of
                  Inl e \<Rightarrow> Some ([Call_sleep 60, Call_dump_data], e)
                | Inr u \<Rightarrow>
                    Option.bind (sleep_loop h (Suc i))
                      (\<lambda>r. Some (Call_sleep 60 # Call_dump_data # fst r, snd r)))))"

text \<open>
  The body of the \<^verbatim>\<open>try\<close>: the local variable \<^verbatim>\<open>pipeline\<close> as it is when the body is
  left (\<open>None\<close>: not assigned), the calls made, and the exception that leaves it.
\<close>

definition try_body :: "host \<Rightarrow> (pipeline option \<times> event list \<times> exc) option" where
  "try_body h =
     (case parse_args h of
        Inl e \<Rightarrow> Some (None, [Call_parse_args], e)
      | Inr arguments \<Rightarrow>
          (case pipeline_factory h arguments of
             Inl e \<Rightarrow> Some (None, [Call_parse_args, Call_pipeline_factory arguments], e)
           | Inr pl \<Rightarrow>
               (case SpecificChannel_init (channel_name_dict (dictionaries pl))
                       (channel_name arguments) of
                  Inl e \<Rightarrow>
                    Some (Some pl, [Call_parse_args, Call_pipeline_factory arguments], e)
                | Inr channel_handler \<Rightarrow>
                    (case register_channel_consumer h pl channel_handler of
                       Some e \<Rightarrow>
                         Some (Some pl,
                           [Call_parse_args, Call_pipeline_factory arguments,
                            Call_register_channel_consumer pl channel_handler], e)
                     | None \<Rightarrow>
                         map_option
                           (\<lambda>(tr, e).
                              (Some pl,
                               [Call_parse_args, Call_pipeline_factory arguments,
                                Call_register_channel_consumer pl channel_handler] @ tr, e))
                           (sleep_loop h 0)))))"

text \<open>
  The \<^verbatim>\<open>except\<close> clauses, in the source's order: the output, and the exception that
  leaves the \<^verbatim>\<open>try\<close> statement, if any. The \<^verbatim>\<open>KeyError\<close> clause reads \<^verbatim>\<open>pipeline\<close>,
  which raises \<^verbatim>\<open>UnboundLocalError\<close> when it was never assigned. An exception that
  no clause matches goes on.
\<close>

definition except_clauses :: "host \<Rightarrow> pipeline option \<Rightarrow> exc \<Rightarrow> event list \<times> exc option" where
  "except_clauses h pl e =
     (if e = KeyboardInterrupt then ([], None)
      else if isinstance_KeyError e then
        (case pl of
           None \<Rightarrow> ([], Some (UnboundLocalError ''pipeline''))
         | Some p \<Rightarrow>
             (let choose_from = join (newline @ tab) (dict_keys (channel_name_dict (dictionaries p)))
              in ([print (''[ERROR] Unknown channel name: '' @ str h e @ newline @ tab @ choose_from)
                     Stderr], None)))
      else if isinstance_Exception e then
        ([print (''[ERROR] Failed to run example code: '' @ str h e) Stderr], None)
      else ([], Some e))"

text \<open>
  \<^verbatim>\<open>main\<close>: the \<^verbatim>\<open>try\<close> statement, then \<^verbatim>\<open>pipeline.disconnect()\<close>. The result is the
  calls and output of the run and the exception that leaves \<^verbatim>\<open>main\<close> (\<open>None\<close>: it
  returns).
\<close>

definition main :: "host \<Rightarrow> (event list \<times> exc option) option" where
  "main h =
     (case try_body h of
        None \<Rightarrow> None
      | Some (pl, tr, e) \<Rightarrow>
          (case except_clauses h pl e of
             (out, Some e') \<Rightarrow> Some (tr @ out, Some e')
           | (out, None) \<Rightarrow>
               (case pl of
                  None \<Rightarrow> Some (tr @ out, Some (UnboundLocalError ''pipeline''))
                | Some p \<Rightarrow> Some (tr @ out @ [Call_disconnect p], disconnect h p))))"

subsection \<open>Example runs\<close>

text \<open>
  The dictionary of the module's documentation, with one channel, and hosts around it:
  the argument parser gives the channel name \<open>nm\<close>, the pipeline factory has the
  outcome \<open>pf\<close>, registration and disconnect return, every \<^verbatim>\<open>time.sleep\<close> has the
  outcome \<open>s\<close>. \<open>example_str\<close> formats an exception as CPython does for these classes.
\<close>

definition example_dictionary :: "ChannelTemplate dict" where
  "example_dictionary = [(''blockDrv.BD_Cycles'', \<lparr>template_id = 7\<rparr>)]"

definition example_pipeline :: pipeline where
  "example_pipeline = \<lparr>dictionaries = \<lparr>channel_name_dict = example_dictionary\<rparr>\<rparr>"

definition quote :: string where
  "quote = [CHR 0x27]"

fun example_str :: "exc \<Rightarrow> string" where
  "example_str (KeyError k) = quote @ k @ quote"
| "example_str (NameError n) = ''name '' @ quote @ n @ quote @ '' is not defined''"
| "example_str (OtherException m) = m"
| "example_str e = []"

definition example_host :: "string \<Rightarrow> exc + pipeline \<Rightarrow> exc option \<Rightarrow> host" where
  "example_host nm pf s =
     \<lparr>parse_args = Inr \<lparr>channel_name = nm\<rparr>,
      pipeline_factory = (\<lambda>a. pf),
      register_channel_consumer = (\<lambda>p c. None),
      sleep = (\<lambda>i. s),
      disconnect = (\<lambda>p. None),
      str = example_str\<rparr>"

definition example_handler :: SpecificChannel where
  "example_handler = \<lparr>last_value = [(''blockDrv.BD_Cycles'', None), (''blockDrv.BD_Time'', None)], id' = 7\<rparr>"

definition example_sample :: "int \<Rightarrow> int \<Rightarrow> sample" where
  "example_sample v t = \<lparr>name = ''blockDrv.BD_Cycles'', val = v, time = t\<rparr>"

section \<open>Properties of dictionaries\<close>

lemma dict_get_set: "dict_get (dict_set d k v) k' = (if k' = k then Some v else dict_get d k')"
  by (induction d) (auto simp: dict_get_def)

lemma dict_keys_set:
  "dict_keys (dict_set d k v) = (if k \<in> set (dict_keys d) then dict_keys d else dict_keys d @ [k])"
  by (induction d) (auto simp: dict_keys_def)

lemma set_dict_keys_set: "set (dict_keys (dict_set d k v)) = insert k (set (dict_keys d))"
  by (auto simp: dict_keys_set)

lemma dict_set_twice: "dict_set (dict_set d k v) k w = dict_set d k w"
  by (induction d) auto

lemma dict_keys_Nil: "dict_keys [] = []"
  by (simp add: dict_keys_def)

lemma dict_get_Nil: "dict_get [] k = None"
  by (simp add: dict_get_def)

lemma foldl_dict_set_keys:
  "set (dict_keys (foldl (\<lambda>d key. dict_set d key (f key)) d0 ks)) = set (dict_keys d0) \<union> set ks"
  by (induction ks arbitrary: d0) (auto simp: set_dict_keys_set)

lemma foldl_dict_set_get:
  "dict_get (foldl (\<lambda>d key. dict_set d key (f key)) d0 ks) k =
     (if k \<in> set ks then Some (f k) else dict_get d0 k)"
  by (induction ks arbitrary: d0) (auto simp: dict_get_set)

lemma dict_keys_comp: "set (dict_keys (dict_comp f ks)) = set ks"
  by (simp add: dict_comp_def foldl_dict_set_keys dict_keys_Nil)

lemma dict_get_comp: "dict_get (dict_comp f ks) k = (if k \<in> set ks then Some (f k) else None)"
  by (simp add: dict_comp_def foldl_dict_set_get dict_get_Nil)

lemma dict_getitem_in: "k \<in> set (dict_keys d) \<Longrightarrow> \<exists>v. dict_getitem d k = Inr v"
  by (auto simp: dict_getitem_def dict_keys_def map_of_eq_None_iff split: option.splits)

lemma dict_getitem_notin: "k \<notin> set (dict_keys d) \<Longrightarrow> dict_getitem d k = Inl (KeyError k)"
  by (auto simp: dict_getitem_def dict_keys_def map_of_eq_None_iff split: option.splits)

section \<open>The update operation\<close>

text \<open>
  C1. For every handler and every delivered sample, \<open>data_callback\<close> stores the sample in
  the last-value mapping under the sample's own channel name, and every entry of the
  mapping under another name is what it was before the call.
\<close>

theorem data_callback_stores_sample:
  "dict_get (last_value (data_callback self data sender)) (name data) = Some (Some data)
   \<and> (\<forall>k. k \<noteq> name data \<longrightarrow>
         dict_get (last_value (data_callback self data sender)) k = dict_get (last_value self) k)"
  by (simp add: data_callback_def dict_get_set)

theorem data_callback_stores_sample_witness:
  "dict_get (last_value (data_callback example_handler (example_sample 1275 1) (None :: unit option)))
     ''blockDrv.BD_Cycles'' = Some (Some (example_sample 1275 1))
   \<and> dict_get (last_value (data_callback example_handler (example_sample 1275 1) (None :: unit option)))
        ''blockDrv.BD_Time'' = Some None"
  using data_callback_stores_sample [of example_handler "example_sample 1275 1" "None :: unit option"]
  by (simp add: example_handler_def example_sample_def dict_get_def)

section \<open>Construction\<close>

text \<open>
  C2. For every dictionary of channel name to descriptor and every name that is a key
  of it, constructing the handler succeeds, and the key set of its last-value mapping is
  exactly the key set of the dictionary, every key mapped to \<open>None\<close> (no sample yet).
\<close>

theorem init_known_name:
  "nm \<in> set (dict_keys channels_by_name) \<Longrightarrow>
   \<exists>self. SpecificChannel_init channels_by_name nm = Inr self
     \<and> set (dict_keys (last_value self)) = set (dict_keys channels_by_name)
     \<and> (\<forall>k \<in> set (dict_keys channels_by_name). dict_get (last_value self) k = Some None)"
  using dict_getitem_in [of nm channels_by_name]
  by (auto simp: SpecificChannel_init_def dict_keys_comp dict_get_comp)

theorem init_known_name_witness:
  "\<exists>self. SpecificChannel_init example_dictionary ''blockDrv.BD_Cycles'' = Inr self
     \<and> set (dict_keys (last_value self)) = {''blockDrv.BD_Cycles''}
     \<and> dict_get (last_value self) ''blockDrv.BD_Cycles'' = Some None"
  using init_known_name [of "''blockDrv.BD_Cycles''" example_dictionary]
  by (simp add: example_dictionary_def dict_keys_def)

section \<open>Successive updates and the identifier\<close>

text \<open>
  C7. For every handler and every two samples with the same channel name, delivering
  the first and then the second leaves the handler exactly as delivering the second
  alone does: the second sample is the one stored under that name, the first is gone.
\<close>

theorem data_callback_overwrites:
  "name s1 = name s2 \<Longrightarrow>
   data_callback (data_callback self s1 sender1) s2 sender2 = data_callback self s2 sender2
   \<and> dict_get (last_value (data_callback (data_callback self s1 sender1) s2 sender2)) (name s2)
       = Some (Some s2)"
  by (simp add: data_callback_def dict_set_twice dict_get_set)

theorem data_callback_overwrites_witness:
  "data_callback (data_callback example_handler (example_sample 1275 1) (None :: unit option))
      (example_sample 1277 2) (None :: unit option)
     = data_callback example_handler (example_sample 1277 2) (None :: unit option)
   \<and> dict_get (last_value (data_callback (data_callback example_handler (example_sample 1275 1)
         (None :: unit option)) (example_sample 1277 2) (None :: unit option))) ''blockDrv.BD_Cycles''
       = Some (Some (example_sample 1277 2))"
  using data_callback_overwrites [of "example_sample 1275 1" "example_sample 1277 2" example_handler
      "None :: unit option" "None :: unit option"]
  by (simp add: example_sample_def example_handler_def data_callback_def dict_get_def)

text \<open>
  C10. The handler's \<^verbatim>\<open>id\<close> is left as it is by every update and is not read by it:
  the update of a handler with any other \<^verbatim>\<open>id\<close> is the same update, and the sample is
  stored whatever the \<^verbatim>\<open>id\<close> is, so nothing is filtered by it.
\<close>

theorem data_callback_ignores_id:
  "id' (data_callback self data sender) = id' self
   \<and> data_callback (self\<lparr>id' := i\<rparr>) data sender = (data_callback self data sender)\<lparr>id' := i\<rparr>
   \<and> dict_get (last_value (data_callback (self\<lparr>id' := i\<rparr>) data sender)) (name data) = Some (Some data)"
  by (simp add: data_callback_def dict_get_set)

section \<open>Construction and update together\<close>

lemma init_keys:
  "SpecificChannel_init channels_by_name nm = Inr self \<Longrightarrow>
   set (dict_keys (last_value self)) = set (dict_keys channels_by_name)"
  by (auto simp: SpecificChannel_init_def dict_keys_comp split: sum.splits)

text \<open>
  C9. When the handler was constructed from a dictionary and a sample arrives whose
  channel name is not a key of that dictionary, the update stores the sample all the
  same: the name becomes a new key, at the end, so the key set after the update is the
  old key set with the sample's name added, and it is no longer the dictionary's.
\<close>

theorem data_callback_adds_unknown_name:
  "SpecificChannel_init channels_by_name nm = Inr self \<Longrightarrow>
   name data \<notin> set (dict_keys channels_by_name) \<Longrightarrow>
   dict_get (last_value (data_callback self data sender)) (name data) = Some (Some data)
   \<and> dict_keys (last_value (data_callback self data sender)) = dict_keys (last_value self) @ [name data]
   \<and> set (dict_keys (last_value (data_callback self data sender)))
        = set (dict_keys (last_value self)) \<union> {name data}
   \<and> set (dict_keys (last_value (data_callback self data sender))) \<noteq> set (dict_keys channels_by_name)"
  using init_keys [of channels_by_name nm self]
  by (auto simp: data_callback_def dict_get_set dict_keys_set)

theorem data_callback_adds_unknown_name_witness:
  "dict_keys (last_value (data_callback \<lparr>last_value = [(''blockDrv.BD_Cycles'', None)], id' = 7\<rparr>
       \<lparr>name = ''rateGroup1.RgMaxTime'', val = 3, time = 1\<rparr> (None :: unit option)))
     = [''blockDrv.BD_Cycles'', ''rateGroup1.RgMaxTime'']"
  using data_callback_adds_unknown_name [of example_dictionary "''blockDrv.BD_Cycles''"
      "\<lparr>last_value = [(''blockDrv.BD_Cycles'', None)], id' = 7\<rparr>"
      "\<lparr>name = ''rateGroup1.RgMaxTime'', val = 3, time = 1\<rparr>" "None :: unit option"]
  by (simp add: example_dictionary_def SpecificChannel_init_def dict_getitem_def dict_comp_def
      dict_keys_def)

section \<open>The argument extension\<close>

text \<open>
  C8. \<open>get_arguments\<close> gives exactly one option: the flag \<^verbatim>\<open>--channel-name\<close> with
  destination \<^verbatim>\<open>channel_name\<close>, required, with a help text and nothing else (no
  default, no type conversion, so the parser keeps the string it was given);
  \<open>handle_arguments\<close> returns the namespace it was given.
\<close>

theorem channel_name_argument:
  "(\<exists>kw. get_arguments self = [([''--channel-name''], kw)]
      \<and> dict_get kw ''dest'' = Some (PyStr ''channel_name'')
      \<and> dict_get kw ''required'' = Some (PyBool True)
      \<and> dict_get kw ''default'' = None
      \<and> dict_get kw ''type'' = None
      \<and> dict_keys kw = [''dest'', ''help'', ''required''])
   \<and> handle_arguments self args kwargs = args"
  by (simp add: get_arguments_def handle_arguments_def dict_get_def dict_keys_def)

section \<open>The driver\<close>

text \<open>
  Neither \<^verbatim>\<open>chanbel_handler\<close> nor \<^verbatim>\<open>self\<close> is a global name of the module, so the
  loop ends in its first round: by what \<^verbatim>\<open>time.sleep\<close> raises, or by the
  \<^verbatim>\<open>NameError\<close> of the next statement. In particular the loop, and with it \<open>main\<close>,
  always ends.
\<close>

lemma load_global_chanbel: "load_global ''chanbel_handler'' = Inl (NameError ''chanbel_handler'')"
  by (simp add: load_global_def module_globals_def)

lemma load_global_self: "load_global ''self'' = Inl (NameError ''self'')"
  by (simp add: load_global_def module_globals_def)

lemma sleep_loop_eq:
  "sleep_loop h i =
     (case sleep h i of
        Some e \<Rightarrow> Some ([Call_sleep 60], e)
      | None \<Rightarrow> Some ([Call_sleep 60], NameError ''chanbel_handler''))"
  by (subst sleep_loop.simps) (simp add: load_global_chanbel split: option.splits)

lemma sleep_loop_total: "\<exists>e. sleep_loop h i = Some ([Call_sleep 60], e)"
  by (simp add: sleep_loop_eq split: option.splits)

lemma try_body_pipeline:
  "\<exists>pl tr e. try_body h = Some (pl, tr, e)
     \<and> (\<forall>s f. Print f s \<notin> set tr) \<and> (\<forall>p. Call_disconnect p \<notin> set tr)
     \<and> pl = (case parse_args h of Inl x \<Rightarrow> None
             | Inr a \<Rightarrow> (case pipeline_factory h a of Inl x \<Rightarrow> None | Inr p \<Rightarrow> Some p))"
proof -
  obtain e where "sleep_loop h 0 = Some ([Call_sleep 60], e)"
    using sleep_loop_total by blast
  then show ?thesis
    by (auto simp: try_body_def split: sum.splits option.splits)
qed

lemma except_clauses_no_disconnect:
  "except_clauses h pl e = (out, r) \<Longrightarrow> Call_disconnect p \<notin> set out"
  by (auto simp: except_clauses_def print_def Let_def split: if_splits option.splits)

lemma except_clauses_caught:
  "e = KeyboardInterrupt \<or> isinstance_Exception e \<Longrightarrow> \<exists>out. except_clauses h (Some p) e = (out, None)"
  by (auto simp: except_clauses_def Let_def)

text \<open>
  C3. For every dictionary and every name that is not one of its keys, constructing the
  handler fails with \<^verbatim>\<open>KeyError\<close> carrying that name. When this happens in the driver
  (arguments parsed, pipeline built), the driver prints one line to standard error,
  made of the formatted key and, after it, all keys of the channel dictionary in the
  dictionary's order, and then disconnects the pipeline.
\<close>

theorem init_unknown_name:
  "nm \<notin> set (dict_keys channels_by_name) \<Longrightarrow>
   SpecificChannel_init channels_by_name nm = Inl (KeyError nm)
   \<and> (parse_args h = Inr a \<and> pipeline_factory h a = Inr p
          \<and> channel_name a = nm \<and> channel_name_dict (dictionaries p) = channels_by_name \<longrightarrow>
        main h = Some
          ([Call_parse_args, Call_pipeline_factory a,
            Print Stderr (''[ERROR] Unknown channel name: '' @ str h (KeyError nm) @ newline @ tab
              @ join (newline @ tab) (dict_keys channels_by_name) @ newline),
            Call_disconnect p],
           disconnect h p))"
  by (auto simp: SpecificChannel_init_def dict_getitem_notin main_def try_body_def
      except_clauses_def print_def)

theorem init_unknown_name_witness:
  "SpecificChannel_init example_dictionary ''doesNotExist'' = Inl (KeyError ''doesNotExist'')
   \<and> main (example_host ''doesNotExist'' (Inr example_pipeline) None) = Some
          ([Call_parse_args, Call_pipeline_factory \<lparr>channel_name = ''doesNotExist''\<rparr>,
            Print Stderr (''[ERROR] Unknown channel name: '' @ quote @ ''doesNotExist'' @ quote @ newline @ tab
              @ ''blockDrv.BD_Cycles'' @ newline),
            Call_disconnect example_pipeline],
           None)"
  using init_unknown_name [of "''doesNotExist''" example_dictionary
      "example_host ''doesNotExist'' (Inr example_pipeline) None"
      "\<lparr>channel_name = ''doesNotExist''\<rparr>" example_pipeline]
  by (simp add: example_dictionary_def example_pipeline_def example_host_def dict_keys_def)

text \<open>
  C4. No call of \<open>dump_data\<close> completes, whatever its arguments; and every run of the
  driver ends without having called \<open>dump_data\<close> at all and without having written
  anything to standard output.
\<close>

theorem dump_data_never_completes:
  "(\<exists>e. dump_data args = Inl e)
   \<and> (\<exists>tr r. main h = Some (tr, r) \<and> Call_dump_data \<notin> set tr \<and> (\<forall>s. Print Stdout s \<notin> set tr))"
proof
  show "\<exists>e. dump_data args = Inl e"
    by (simp add: dump_data_def load_global_self)
next
  obtain e where "sleep_loop h 0 = Some ([Call_sleep 60], e)"
    using sleep_loop_total by blast
  then show "\<exists>tr r. main h = Some (tr, r) \<and> Call_dump_data \<notin> set tr \<and> (\<forall>s. Print Stdout s \<notin> set tr)"
    by (auto simp: main_def try_body_def except_clauses_def print_def Let_def
        split: sum.splits option.splits prod.splits)
qed

text \<open>
  C5. Every run of the driver ends. When the pipeline was constructed and the
  \<^verbatim>\<open>try\<close> body is left by \<^verbatim>\<open>KeyboardInterrupt\<close> or by an instance of
  \<^verbatim>\<open>Exception\<close> (a \<^verbatim>\<open>KeyError\<close> among them), the last thing the driver does is to
  call \<^verbatim>\<open>disconnect\<close> on that pipeline, and whenever the driver returns it has done
  so. When the pipeline was not constructed (parsing or the factory raised),
  \<^verbatim>\<open>disconnect\<close> is never called, and the driver does not return but raises.
\<close>

theorem main_disconnect:
  "\<exists>pl tr0 e tr r. try_body h = Some (pl, tr0, e) \<and> main h = Some (tr, r)
     \<and> (\<forall>a p. parse_args h = Inr a \<and> pipeline_factory h a = Inr p \<longrightarrow>
           (e = KeyboardInterrupt \<or> isinstance_Exception e \<longrightarrow>
              last tr = Call_disconnect p \<and> r = disconnect h p)
           \<and> (r = None \<longrightarrow> last tr = Call_disconnect p))
     \<and> (\<not> (\<exists>a p. parse_args h = Inr a \<and> pipeline_factory h a = Inr p) \<longrightarrow>
           (\<forall>p. Call_disconnect p \<notin> set tr) \<and> r \<noteq> None)"
proof -
  obtain pl tr0 e where tb: "try_body h = Some (pl, tr0, e)"
    and nd: "\<forall>p. Call_disconnect p \<notin> set tr0"
    and pl: "pl = (case parse_args h of Inl x \<Rightarrow> None
             | Inr a \<Rightarrow> (case pipeline_factory h a of Inl x \<Rightarrow> None | Inr p \<Rightarrow> Some p))"
    using try_body_pipeline [of h] by blast
  obtain out r0 where ec: "except_clauses h pl e = (out, r0)"
    by (cases "except_clauses h pl e")
  have ndo: "\<forall>p. Call_disconnect p \<notin> set out"
    using except_clauses_no_disconnect [OF ec] by blast
  show ?thesis
  proof (cases pl)
    case None
    have m: "main h = Some (tr0 @ out, Some (case r0 of None \<Rightarrow> UnboundLocalError ''pipeline'' | Some e' \<Rightarrow> e'))"
      using tb ec None by (simp add: main_def split: option.splits)
    have no: "\<not> (\<exists>a p. parse_args h = Inr a \<and> pipeline_factory h a = Inr p)"
      using pl None by (auto split: sum.splits)
    show ?thesis
    proof (intro exI conjI)
      show "try_body h = Some (pl, tr0, e)" by fact
      show "main h = Some (tr0 @ out, Some (case r0 of None \<Rightarrow> UnboundLocalError ''pipeline'' | Some e' \<Rightarrow> e'))"
        by fact
      show "\<forall>a p. parse_args h = Inr a \<and> pipeline_factory h a = Inr p \<longrightarrow>
           (e = KeyboardInterrupt \<or> isinstance_Exception e \<longrightarrow>
              last (tr0 @ out) = Call_disconnect p
              \<and> Some (case r0 of None \<Rightarrow> UnboundLocalError ''pipeline'' | Some e' \<Rightarrow> e') = disconnect h p)
           \<and> (Some (case r0 of None \<Rightarrow> UnboundLocalError ''pipeline'' | Some e' \<Rightarrow> e') = None \<longrightarrow>
                last (tr0 @ out) = Call_disconnect p)"
        using no by blast
      show "\<not> (\<exists>a p. parse_args h = Inr a \<and> pipeline_factory h a = Inr p) \<longrightarrow>
           (\<forall>p. Call_disconnect p \<notin> set (tr0 @ out))
           \<and> Some (case r0 of None \<Rightarrow> UnboundLocalError ''pipeline'' | Some e' \<Rightarrow> e') \<noteq> None"
        using nd ndo by simp
    qed
  next
    case (Some p)
    have pp: "\<And>a p'. parse_args h = Inr a \<and> pipeline_factory h a = Inr p' \<Longrightarrow> p' = p"
      using pl Some by (auto split: sum.splits)
    have ex: "\<exists>a p. parse_args h = Inr a \<and> pipeline_factory h a = Inr p"
      using pl Some by (auto split: sum.splits)
    show ?thesis
    proof (cases r0)
      case None
      have m: "main h = Some (tr0 @ out @ [Call_disconnect p], disconnect h p)"
        using tb ec Some None by (simp add: main_def)
      show ?thesis
      proof (intro exI conjI)
        show "try_body h = Some (pl, tr0, e)" by fact
        show "main h = Some (tr0 @ out @ [Call_disconnect p], disconnect h p)" by fact
        show "\<forall>a p'. parse_args h = Inr a \<and> pipeline_factory h a = Inr p' \<longrightarrow>
           (e = KeyboardInterrupt \<or> isinstance_Exception e \<longrightarrow>
              last (tr0 @ out @ [Call_disconnect p]) = Call_disconnect p' \<and> disconnect h p = disconnect h p')
           \<and> (disconnect h p = None \<longrightarrow> last (tr0 @ out @ [Call_disconnect p]) = Call_disconnect p')"
          using pp by auto
        show "\<not> (\<exists>a p. parse_args h = Inr a \<and> pipeline_factory h a = Inr p) \<longrightarrow>
           (\<forall>p'. Call_disconnect p' \<notin> set (tr0 @ out @ [Call_disconnect p])) \<and> disconnect h p \<noteq> None"
          using ex by simp
      qed
    next
      case (Some e')
      have m: "main h = Some (tr0 @ out, Some e')"
        using tb ec Some by (simp add: main_def)
      have nc: "\<not> (e = KeyboardInterrupt \<or> isinstance_Exception e)"
        using except_clauses_caught [of e h p] ec \<open>pl = Some p\<close> Some by auto
      show ?thesis
      proof (intro exI conjI)
        show "try_body h = Some (pl, tr0, e)" by fact
        show "main h = Some (tr0 @ out, Some e')" by fact
        show "\<forall>a p'. parse_args h = Inr a \<and> pipeline_factory h a = Inr p' \<longrightarrow>
           (e = KeyboardInterrupt \<or> isinstance_Exception e \<longrightarrow>
              last (tr0 @ out) = Call_disconnect p' \<and> Some e' = disconnect h p')
           \<and> (Some e' = None \<longrightarrow> last (tr0 @ out) = Call_disconnect p')"
          using nc by simp
        show "\<not> (\<exists>a p. parse_args h = Inr a \<and> pipeline_factory h a = Inr p) \<longrightarrow>
           (\<forall>p'. Call_disconnect p' \<notin> set (tr0 @ out)) \<and> Some e' \<noteq> None"
          using ex by simp
      qed
    qed
  qed
qed

theorem main_disconnect_witness:
  "(\<exists>tr. main (example_host ''blockDrv.BD_Cycles'' (Inr example_pipeline) (Some KeyboardInterrupt))
           = Some (tr, None) \<and> last tr = Call_disconnect example_pipeline)
   \<and> (\<exists>tr r. main (example_host ''blockDrv.BD_Cycles'' (Inl (OtherException ''refused'')) None)
           = Some (tr, r) \<and> (\<forall>p. Call_disconnect p \<notin> set tr) \<and> r \<noteq> None)"
  using main_disconnect [of "example_host ''blockDrv.BD_Cycles'' (Inr example_pipeline) (Some KeyboardInterrupt)"]
    main_disconnect [of "example_host ''blockDrv.BD_Cycles'' (Inl (OtherException ''refused'')) None"]
  by (auto simp: example_host_def try_body_def sleep_loop_eq SpecificChannel_init_def dict_getitem_def
      example_pipeline_def example_dictionary_def)

text \<open>
  C6. When setup has succeeded and \<^verbatim>\<open>KeyboardInterrupt\<close> is raised in the sleep loop,
  the run is: parse, build the pipeline, register the handler, sleep, disconnect. It
  prints nothing, and it returns unless \<^verbatim>\<open>disconnect\<close> itself raises.
\<close>

theorem keyboard_interrupt_in_sleep_loop:
  "parse_args h = Inr a \<Longrightarrow> pipeline_factory h a = Inr p \<Longrightarrow>
   SpecificChannel_init (channel_name_dict (dictionaries p)) (channel_name a) = Inr ch \<Longrightarrow>
   register_channel_consumer h p ch = None \<Longrightarrow>
   sleep_loop h 0 = Some (tr, KeyboardInterrupt) \<Longrightarrow>
   main h = Some ([Call_parse_args, Call_pipeline_factory a, Call_register_channel_consumer p ch,
                   Call_sleep 60, Call_disconnect p], disconnect h p)
   \<and> (\<forall>f s. Print f s \<notin> set [Call_parse_args, Call_pipeline_factory a,
          Call_register_channel_consumer p ch, Call_sleep 60, Call_disconnect p])"
  by (auto simp: main_def try_body_def except_clauses_def sleep_loop_eq split: option.splits)

theorem keyboard_interrupt_in_sleep_loop_witness:
  "main (example_host ''blockDrv.BD_Cycles'' (Inr example_pipeline) (Some KeyboardInterrupt)) =
     Some ([Call_parse_args, Call_pipeline_factory \<lparr>channel_name = ''blockDrv.BD_Cycles''\<rparr>,
            Call_register_channel_consumer example_pipeline
              \<lparr>last_value = [(''blockDrv.BD_Cycles'', None)], id' = 7\<rparr>,
            Call_sleep 60, Call_disconnect example_pipeline], None)"
  using keyboard_interrupt_in_sleep_loop
    [of "example_host ''blockDrv.BD_Cycles'' (Inr example_pipeline) (Some KeyboardInterrupt)"
        "\<lparr>channel_name = ''blockDrv.BD_Cycles''\<rparr>" example_pipeline
        "\<lparr>last_value = [(''blockDrv.BD_Cycles'', None)], id' = 7\<rparr>" "[Call_sleep 60]"]
  by (simp add: example_host_def example_pipeline_def example_dictionary_def sleep_loop_eq
      SpecificChannel_init_def dict_getitem_def dict_comp_def dict_keys_def)

end
